theory Spec2Isabelle
  imports Main "HOL-Library.Word"
begin

section \<open>Fault injectors for HTTP handlers (injector.go)\<close>

subsection \<open>Requests, events and the world a handler acts on\<close>

text \<open>
  \<^verbatim>\<open>type InjectorState int\<close> with the constants \<^verbatim>\<open>StateStarted\<close>, \<^verbatim>\<open>StateFinished\<close>,
  \<^verbatim>\<open>StateSkipped\<close> (\<^verbatim>\<open>iota + 1\<close>).
\<close>

datatype InjectorState = StateStarted | StateFinished | StateSkipped

definition InjectorState_int :: "InjectorState \<Rightarrow> int" where
  "InjectorState_int s =
     (case s of StateStarted \<Rightarrow> 1 | StateFinished \<Rightarrow> 2 | StateSkipped \<Rightarrow> 3)"

datatype error = ErrInvalidHTTPCode

text \<open>
  The context tags the handlers pass to \<^verbatim>\<open>updateRequestContextValue\<close>. The constants are
  declared outside injector.go; only their names are used here.
\<close>

datatype ContextString =
    ContextValueChainInjector
  | ContextValueRandomInjector
  | ContextValueSlowInjector
  | ContextValueSkipped

text \<open>
  A request: what the injectors never look at (\<open>target\<close>) and the tags of its context.
\<close>

record request =
  target :: string
  ctx :: "ContextString list"

text \<open>
  A \<^verbatim>\<open>Reporter\<close> is an interface value; the model keeps the identity of the observer, and
  a field of type \<open>Reporter option\<close> is \<open>None\<close> for the nil interface.
\<close>

type_synonym Reporter = nat

type_synonym Duration = "64 word"

text \<open>
  What a handler does to its surroundings, in the order it does it: a call of an observer,
  a call of the delay function \<^verbatim>\<open>time.Sleep\<close>, a call \<^verbatim>\<open>http.Error(w, text, code)\<close> on the
  response writer, and the answer of an application handler to a request.
\<close>

datatype event =
    Report Reporter string InjectorState
  | Slept Duration
  | HttpError string int
  | Served request

text \<open>
  A handler returns, or panics. \<^verbatim>\<open>http.ErrAbortHandler\<close> is the value the server recognises
  as a deliberate abort; the other values are run-time panics of Go.
\<close>

datatype panic_value = ErrAbortHandler | IndexOutOfRange | NilDereference

datatype outcome = Returned | Panicked panic_value

text \<open>
  The world: the trace of events (the response writer and the observers), and the store of
  the \<^verbatim>\<open>*rand.Rand\<close> generators, by address, with the number of addresses allocated.
  The type \<open>'g\<close> is the state of a generator of math/rand.
\<close>

record 'g world =
  events :: "event list"
  rands :: "nat \<Rightarrow> 'g"
  nrands :: nat

text \<open>
  An \<^verbatim>\<open>http.Handler\<close> whose closure assigns none of its captured variables: everything
  \<^verbatim>\<open>ServeHTTP(w, r)\<close> does is a change of the world. A middleware is a value of type
  \<^verbatim>\<open>func(next http.Handler) http.Handler\<close>.
\<close>

type_synonym 'g handler = "request \<Rightarrow> 'g world \<Rightarrow> outcome \<times> 'g world"

type_synonym 'g middleware = "'g handler \<Rightarrow> 'g handler"

text \<open>
  Modelled from the spec: \<^verbatim>\<open>updateRequestContextValue\<close> is defined outside injector.go. It
  "annotates the request's context with a tag identifying which injector path was taken";
  the tag is added after the tags the context already has.
\<close>

definition updateRequestContextValue :: "request \<Rightarrow> ContextString \<Rightarrow> request" where
  "updateRequestContextValue r v = r\<lparr>ctx := ctx r @ [v]\<rparr>"

text \<open>
  Modelled from the spec: \<^verbatim>\<open>reportWithMessage\<close> is defined outside injector.go. The observer
  accepts \<open>(sourceName, state)\<close>, and "absence of an observer is always a valid, silent
  no-op".
\<close>

definition reportWithMessage ::
  "Reporter option \<Rightarrow> string \<Rightarrow> InjectorState \<Rightarrow> 'g world \<Rightarrow> 'g world" where
  "reportWithMessage rep name st w =
     (case rep of
        None \<Rightarrow> w
      | Some p \<Rightarrow> w\<lparr>events := events w @ [Report p name st]\<rparr>)"

text \<open>
  The two library calls with an effect: \<^verbatim>\<open>http.Error(w, text, code)\<close> and \<^verbatim>\<open>time.Sleep(d)\<close>.
  Each is recorded with its arguments.
\<close>

definition http_Error :: "string \<Rightarrow> int \<Rightarrow> 'g world \<Rightarrow> 'g world" where
  "http_Error text code w = w\<lparr>events := events w @ [HttpError text code]\<rparr>"

definition time_Sleep :: "Duration \<Rightarrow> 'g world \<Rightarrow> 'g world" where
  "time_Sleep d w = w\<lparr>events := events w @ [Slept d]\<rparr>"

text \<open>
  \<^verbatim>\<open>rand.New(src)\<close> allocates a generator; \<^verbatim>\<open>(*rand.Rand).Intn\<close>, as a method value bound to
  the generator at address \<open>a\<close>, draws from it and stores its next state. The function
  \<open>Intn\<close> of math/rand itself is a parameter: from a generator state and a bound it gives
  the number drawn and the next state.
\<close>

definition rand_New :: "'g \<Rightarrow> 'g world \<Rightarrow> nat \<times> 'g world" where
  "rand_New g w =
     (nrands w, w\<lparr>rands := (rands w)(nrands w := g), nrands := Suc (nrands w)\<rparr>)"

definition rand_Intn ::
  "('g \<Rightarrow> int \<Rightarrow> int \<times> 'g) \<Rightarrow> nat \<Rightarrow> int \<Rightarrow> 'g world \<Rightarrow> int \<times> 'g world" where
  "rand_Intn Intn a n w =
     (let (k, g) = Intn (rands w a) n
      in (k, w\<lparr>rands := (rands w)(a := g)\<rparr>))"

subsection \<open>The Injector interface\<close>

text \<open>
  An interface value holding an injector: its methods \<^verbatim>\<open>Name\<close> and \<^verbatim>\<open>Handler\<close>, bound to
  the injector. (\<^verbatim>\<open>SetReporter\<close> changes the injector behind the value and is modelled on
  each injector type.)
\<close>

record 'g Injector =
  Name :: string
  Handler :: "'g middleware"

subsection \<open>RejectInjector\<close>

record RejectInjector =
  reporter_reject :: "Reporter option"

definition NewRejectInjector :: "error + RejectInjector" where
  "NewRejectInjector = Inr \<lparr>reporter_reject = None\<rparr>"

definition RejectInjector_Name :: string where
  "RejectInjector_Name = ''Reject Injector''"

text \<open>The receiver is a pointer: \<open>None\<close> is the nil pointer.\<close>

definition RejectInjector_Handler :: "RejectInjector option \<Rightarrow> 'g handler \<Rightarrow> 'g handler" where
  "RejectInjector_Handler i next r w =
     (let w1 = (case i of
                  None \<Rightarrow> w
                | Some j \<Rightarrow> reportWithMessage (reporter_reject j) RejectInjector_Name StateStarted w)
      in (Panicked ErrAbortHandler, w1))"

definition RejectInjector_SetReporter ::
  "RejectInjector option \<Rightarrow> Reporter option \<Rightarrow> panic_value + RejectInjector" where
  "RejectInjector_SetReporter i r =
     (case i of
        None \<Rightarrow> Inl NilDereference
      | Some j \<Rightarrow> Inr (j\<lparr>reporter_reject := r\<rparr>))"

definition RejectInjector_Injector :: "RejectInjector option \<Rightarrow> 'g Injector" where
  "RejectInjector_Injector i = \<lparr>Name = RejectInjector_Name, Handler = RejectInjector_Handler i\<rparr>"

subsection \<open>ErrorInjector\<close>

record ErrorInjector =
  statusCode :: int
  statusText :: string
  reporter_error :: "Reporter option"

text \<open>
  \<^verbatim>\<open>http.StatusText\<close> is the table of net/http; \<open>NewErrorInjector\<close> and the handler take it
  as the parameter \<open>StatusText\<close>.
\<close>

definition NewErrorInjector :: "(int \<Rightarrow> string) \<Rightarrow> int \<Rightarrow> error + ErrorInjector" where
  "NewErrorInjector StatusText code =
     (let text = StatusText code
      in if text = [] then Inl ErrInvalidHTTPCode
         else Inr \<lparr>statusCode = code, statusText = text, reporter_error = None\<rparr>)"

definition ErrorInjector_Name :: string where
  "ErrorInjector_Name = ''Error Injector''"

definition ErrorInjector_Handler ::
  "(int \<Rightarrow> string) \<Rightarrow> ErrorInjector option \<Rightarrow> 'g handler \<Rightarrow> 'g handler" where
  "ErrorInjector_Handler StatusText i next r w =
     (case i of
        None \<Rightarrow> next r w
      | Some e \<Rightarrow>
          (let w1 = reportWithMessage (reporter_error e) ErrorInjector_Name StateStarted w
           in if StatusText (statusCode e) \<noteq> []
              then (Returned, http_Error (statusText e) (statusCode e) w1)
              else next r w1))"

definition ErrorInjector_SetReporter ::
  "ErrorInjector option \<Rightarrow> Reporter option \<Rightarrow> panic_value + ErrorInjector" where
  "ErrorInjector_SetReporter i r =
     (case i of
        None \<Rightarrow> Inl NilDereference
      | Some e \<Rightarrow> Inr (e\<lparr>reporter_error := r\<rparr>))"

definition ErrorInjector_Injector ::
  "(int \<Rightarrow> string) \<Rightarrow> ErrorInjector option \<Rightarrow> 'g Injector" where
  "ErrorInjector_Injector StatusText i =
     \<lparr>Name = ErrorInjector_Name, Handler = ErrorInjector_Handler StatusText i\<rparr>"

subsection \<open>SlowInjector\<close>

text \<open>The field \<open>sleep\<close> is a function value: \<open>None\<close> is the nil function.\<close>

record 'g SlowInjector =
  duration :: Duration
  reporter_slow :: "Reporter option"
  sleep :: "(Duration \<Rightarrow> 'g world \<Rightarrow> 'g world) option"

definition NewSlowInjector :: "Duration \<Rightarrow> error + 'g SlowInjector" where
  "NewSlowInjector d = Inr \<lparr>duration = d, reporter_slow = None, sleep = Some time_Sleep\<rparr>"

definition SlowInjector_Name :: string where
  "SlowInjector_Name = ''Slow Injector''"

definition SlowInjector_Handler :: "'g SlowInjector option \<Rightarrow> 'g handler \<Rightarrow> 'g handler" where
  "SlowInjector_Handler i next r w =
     (case i of
        None \<Rightarrow> next (updateRequestContextValue r ContextValueSkipped) w
      | Some s \<Rightarrow>
          (case sleep s of
             None \<Rightarrow> next (updateRequestContextValue r ContextValueSkipped) w
           | Some f \<Rightarrow>
               (let w1 = reportWithMessage (reporter_slow s) SlowInjector_Name StateStarted w;
                    w2 = f (duration s) w1;
                    w3 = reportWithMessage (reporter_slow s) SlowInjector_Name StateFinished w2
                in next (updateRequestContextValue r ContextValueSlowInjector) w3)))"

definition SlowInjector_SetReporter ::
  "'g SlowInjector option \<Rightarrow> Reporter option \<Rightarrow> panic_value + 'g SlowInjector" where
  "SlowInjector_SetReporter i r =
     (case i of
        None \<Rightarrow> Inl NilDereference
      | Some s \<Rightarrow> Inr (s\<lparr>reporter_slow := r\<rparr>))"

definition SlowInjector_Injector :: "'g SlowInjector option \<Rightarrow> 'g Injector" where
  "SlowInjector_Injector i = \<lparr>Name = SlowInjector_Name, Handler = SlowInjector_Handler i\<rparr>"

subsection \<open>ChainInjector\<close>

record 'g ChainInjector =
  middlewares_chain :: "'g middleware list"
  reporter_chain :: "Reporter option"

text \<open>The loop of \<^verbatim>\<open>NewChainInjector\<close>: \<^verbatim>\<open>append(chainInjector.middlewares, i.Handler)\<close>.\<close>

fun NewChainInjector_loop :: "'g ChainInjector \<Rightarrow> 'g Injector list \<Rightarrow> 'g ChainInjector" where
  "NewChainInjector_loop c [] = c"
| "NewChainInjector_loop c (i # is) =
     NewChainInjector_loop (c\<lparr>middlewares_chain := middlewares_chain c @ [Handler i]\<rparr>) is"

definition NewChainInjector :: "'g Injector list \<Rightarrow> error + 'g ChainInjector" where
  "NewChainInjector is =
     Inr (NewChainInjector_loop \<lparr>middlewares_chain = [], reporter_chain = None\<rparr> is)"

definition ChainInjector_Name :: string where
  "ChainInjector_Name = ''Chain Injector''"

text \<open>
  The loop of the handler, \<^verbatim>\<open>for idx := len(i.middlewares) - 1; idx >= 0; idx--\<close>, with the
  variable \<^verbatim>\<open>next\<close> it assigns as the accumulator. The index starts below the length and
  falls, so the read \<^verbatim>\<open>i.middlewares[idx]\<close> is in range.
\<close>

function ChainInjector_Handler_loop ::
  "'g middleware list \<Rightarrow> int \<Rightarrow> 'g handler \<Rightarrow> 'g handler" where
  "ChainInjector_Handler_loop ms idx next =
     (if idx \<ge> 0
      then ChainInjector_Handler_loop ms (idx - 1) ((ms ! nat idx) next)
      else next)"
  by pat_completeness auto
termination
  by (relation "measure (\<lambda>(ms, idx, next). nat (idx + 1))") auto

declare ChainInjector_Handler_loop.simps [simp del]

text \<open>
  The function literal that \<^verbatim>\<open>Handler(next)\<close> returns. It captures the parameter \<^verbatim>\<open>next\<close> of
  \<^verbatim>\<open>Handler\<close> and assigns to it, and a captured variable lives as long as the closure: the
  value the loop leaves in \<^verbatim>\<open>next\<close> is the value the following invocation of the same
  handler starts from. So one invocation takes the present value of \<^verbatim>\<open>next\<close> and gives, with
  its result, the value it leaves there.
\<close>

definition ChainInjector_Handler_func ::
  "'g ChainInjector option \<Rightarrow> 'g handler \<Rightarrow> request \<Rightarrow> 'g world
     \<Rightarrow> (outcome \<times> 'g world) \<times> 'g handler" where
  "ChainInjector_Handler_func i next r w =
     (case i of
        None \<Rightarrow> (next r w, next)
      | Some c \<Rightarrow>
          (let r1 = updateRequestContextValue r ContextValueChainInjector;
               next1 = ChainInjector_Handler_loop (middlewares_chain c)
                         (int (length (middlewares_chain c)) - 1) next
           in (next1 r1 w, next1)))"

text \<open>
  \<open>h := i.Handler(next)\<close> followed by one invocation of \<open>h\<close> for each request of the
  list, in turn: the outcomes, the world and the value left in the captured \<^verbatim>\<open>next\<close>.
  A panic of an invocation ends that invocation only (the server recovers it).
\<close>

fun ChainInjector_Handler_invocations ::
  "'g ChainInjector option \<Rightarrow> 'g handler \<Rightarrow> request list \<Rightarrow> 'g world
     \<Rightarrow> outcome list \<times> 'g world \<times> 'g handler" where
  "ChainInjector_Handler_invocations i next [] w = ([], w, next)"
| "ChainInjector_Handler_invocations i next (r # rs) w =
     (let ((out, w1), next1) = ChainInjector_Handler_func i next r w;
          (outs, w2, next2) = ChainInjector_Handler_invocations i next1 rs w1
      in (out # outs, w2, next2))"

definition ChainInjector_SetReporter ::
  "'g ChainInjector option \<Rightarrow> Reporter option \<Rightarrow> panic_value + 'g ChainInjector" where
  "ChainInjector_SetReporter i r =
     (case i of
        None \<Rightarrow> Inl NilDereference
      | Some c \<Rightarrow> Inr (c\<lparr>reporter_chain := r\<rparr>))"

subsection \<open>RandomInjector\<close>

text \<open>
  The field \<open>rand\<close> is the address of the generator; \<open>randF\<close> is a function value
  \<^verbatim>\<open>func(int) int\<close>, which may change the world (it advances a generator).
\<close>

record 'g RandomInjector =
  middlewares_random :: "'g middleware list"
  reporter_random :: "Reporter option"
  rand :: nat
  randF :: "int \<Rightarrow> 'g world \<Rightarrow> int \<times> 'g world"

fun NewRandomInjector_loop :: "'g RandomInjector \<Rightarrow> 'g Injector list \<Rightarrow> 'g RandomInjector" where
  "NewRandomInjector_loop c [] = c"
| "NewRandomInjector_loop c (i # is) =
     NewRandomInjector_loop (c\<lparr>middlewares_random := middlewares_random c @ [Handler i]\<rparr>) is"

text \<open>
  \<open>NewSource\<close> and \<open>Intn\<close> are the functions of math/rand and \<open>defaultRandSeed\<close> the
  constant of the package, declared outside injector.go: all three are parameters.
\<close>

definition NewRandomInjector ::
  "(64 word \<Rightarrow> 'g) \<Rightarrow> ('g \<Rightarrow> int \<Rightarrow> int \<times> 'g) \<Rightarrow> 64 word \<Rightarrow> 'g Injector list \<Rightarrow> 'g world
     \<Rightarrow> (error + 'g RandomInjector) \<times> 'g world" where
  "NewRandomInjector NewSource Intn defaultRandSeed is w =
     (let (a, w1) = rand_New (NewSource defaultRandSeed) w;
          ri = \<lparr>middlewares_random = [], reporter_random = None,
                rand = a, randF = rand_Intn Intn a\<rparr>
      in (Inr (NewRandomInjector_loop ri is), w1))"

definition RandomInjector_Name :: string where
  "RandomInjector_Name = ''Random Injector''"

definition RandomInjector_SetRandSeed ::
  "(64 word \<Rightarrow> 'g) \<Rightarrow> ('g \<Rightarrow> int \<Rightarrow> int \<times> 'g) \<Rightarrow> 'g RandomInjector option \<Rightarrow> 64 word \<Rightarrow> 'g world
     \<Rightarrow> (panic_value + 'g RandomInjector) \<times> 'g world" where
  "RandomInjector_SetRandSeed NewSource Intn i s w =
     (case i of
        None \<Rightarrow> (Inl NilDereference, w)
      | Some ri \<Rightarrow>
          (let (a, w1) = rand_New (NewSource s) w
           in (Inr (ri\<lparr>rand := a, randF := rand_Intn Intn a\<rparr>), w1)))"

text \<open>
  The index expression \<^verbatim>\<open>i.middlewares[i.randF(len(i.middlewares))]\<close> panics in Go when
  the number is not an index of the slice.
\<close>

definition RandomInjector_Handler :: "'g RandomInjector option \<Rightarrow> 'g handler \<Rightarrow> 'g handler" where
  "RandomInjector_Handler i next r w =
     (case i of
        None \<Rightarrow> next r w
      | Some ri \<Rightarrow>
          if length (middlewares_random ri) > 0
          then (let r1 = updateRequestContextValue r ContextValueRandomInjector;
                    (k, w1) = randF ri (int (length (middlewares_random ri))) w
                in if 0 \<le> k \<and> k < int (length (middlewares_random ri))
                   then ((middlewares_random ri) ! nat k) next r1 w1
                   else (Panicked IndexOutOfRange, w1))
          else next r w)"

definition RandomInjector_SetReporter ::
  "'g RandomInjector option \<Rightarrow> Reporter option \<Rightarrow> panic_value + 'g RandomInjector" where
  "RandomInjector_SetReporter i r =
     (case i of
        None \<Rightarrow> Inl NilDereference
      | Some ri \<Rightarrow> Inr (ri\<lparr>reporter_random := r\<rparr>))"

definition RandomInjector_Injector :: "'g RandomInjector option \<Rightarrow> 'g Injector" where
  "RandomInjector_Injector i = \<lparr>Name = RandomInjector_Name, Handler = RandomInjector_Handler i\<rparr>"

subsection \<open>Observations on runs\<close>

text \<open>
  The index a RandomInjector draws at each of a list of requests served in turn by the
  handler \<^verbatim>\<open>i.Handler(next)\<close>: the number \<^verbatim>\<open>i.randF(len(i.middlewares))\<close> gives in the world
  the invocation starts in. (With no middleware the handler draws nothing.)
\<close>

fun RandomInjector_selections ::
  "'g RandomInjector \<Rightarrow> 'g handler \<Rightarrow> request list \<Rightarrow> 'g world \<Rightarrow> int list" where
  "RandomInjector_selections ri next [] w = []"
| "RandomInjector_selections ri next (r # rs) w =
     fst (randF ri (int (length (middlewares_random ri))) w)
       # RandomInjector_selections ri next rs (snd (RandomInjector_Handler (Some ri) next r w))"

text \<open>The first \<open>k\<close> numbers a generator in state \<open>g\<close> gives for the bound \<open>n\<close>.\<close>

fun Intn_draws :: "('g \<Rightarrow> int \<Rightarrow> int \<times> 'g) \<Rightarrow> 'g \<Rightarrow> int \<Rightarrow> nat \<Rightarrow> int list" where
  "Intn_draws Intn g n 0 = []"
| "Intn_draws Intn g n (Suc k) = fst (Intn g n) # Intn_draws Intn (snd (Intn g n)) n k"

text \<open>The number of reports of a state in a trace.\<close>

fun is_report :: "InjectorState \<Rightarrow> event \<Rightarrow> bool" where
  "is_report st (Report p name s) = (s = st)"
| "is_report st (Slept d) = False"
| "is_report st (HttpError text code) = False"
| "is_report st (Served r) = False"

definition count_reports :: "InjectorState \<Rightarrow> event list \<Rightarrow> nat" where
  "count_reports st es = length (filter (is_report st) es)"

subsection \<open>Concrete values for the examples\<close>

text \<open>
  The table of \<^verbatim>\<open>http.StatusText\<close> in Go's net/http: the text of a known code, and the empty
  string for any other.
\<close>

definition http_StatusText_table :: "(int \<times> string) list" where
  "http_StatusText_table =
     [(100, ''Continue''), (101, ''Switching Protocols''), (102, ''Processing''),
      (103, ''Early Hints''),
      (200, ''OK''), (201, ''Created''), (202, ''Accepted''),
      (203, ''Non-Authoritative Information''), (204, ''No Content''),
      (205, ''Reset Content''), (206, ''Partial Content''), (207, ''Multi-Status''),
      (208, ''Already Reported''), (226, ''IM Used''),
      (300, ''Multiple Choices''), (301, ''Moved Permanently''), (302, ''Found''),
      (303, ''See Other''), (304, ''Not Modified''), (305, ''Use Proxy''),
      (307, ''Temporary Redirect''), (308, ''Permanent Redirect''),
      (400, ''Bad Request''), (401, ''Unauthorized''), (402, ''Payment Required''),
      (403, ''Forbidden''), (404, ''Not Found''), (405, ''Method Not Allowed''),
      (406, ''Not Acceptable''), (407, ''Proxy Authentication Required''),
      (408, ''Request Timeout''), (409, ''Conflict''), (410, ''Gone''),
      (411, ''Length Required''), (412, ''Precondition Failed''),
      (413, ''Request Entity Too Large''), (414, ''Request URI Too Long''),
      (415, ''Unsupported Media Type''), (416, ''Requested Range Not Satisfiable''),
      (417, ''Expectation Failed''), (418, ''I'm a teapot''),
      (421, ''Misdirected Request''), (422, ''Unprocessable Entity''), (423, ''Locked''),
      (424, ''Failed Dependency''), (425, ''Too Early''), (426, ''Upgrade Required''),
      (428, ''Precondition Required''), (429, ''Too Many Requests''),
      (431, ''Request Header Fields Too Large''),
      (451, ''Unavailable For Legal Reasons''),
      (500, ''Internal Server Error''), (501, ''Not Implemented''), (502, ''Bad Gateway''),
      (503, ''Service Unavailable''), (504, ''Gateway Timeout''),
      (505, ''HTTP Version Not Supported''), (506, ''Variant Also Negotiates''),
      (507, ''Insufficient Storage''), (508, ''Loop Detected''), (510, ''Not Extended''),
      (511, ''Network Authentication Required'')]"

definition http_StatusText :: "int \<Rightarrow> string" where
  "http_StatusText code =
     (case map_of http_StatusText_table code of None \<Rightarrow> [] | Some text \<Rightarrow> text)"

text \<open>An application handler: it answers the request it is given, and returns.\<close>

definition appHandler :: "'g handler" where
  "appHandler r w = (Returned, w\<lparr>events := events w @ [Served r]\<rparr>)"

text \<open>
  A small generator, for running the RandomInjector: the state is a counter, a draw gives
  the counter modulo the bound and adds one to it.
\<close>

definition counter_NewSource :: "64 word \<Rightarrow> int" where
  "counter_NewSource s = uint s"

definition counter_Intn :: "int \<Rightarrow> int \<Rightarrow> int \<times> int" where
  "counter_Intn g n = (g mod n, g + 1)"

definition example_world :: "int world" where
  "example_world = \<lparr>events = [], rands = (\<lambda>a. 0), nrands = 0\<rparr>"

definition example_request :: request where
  "example_request = \<lparr>target = ''/'', ctx = []\<rparr>"

text \<open>
  \<^verbatim>\<open>slow, _ := NewSlowInjector(5)\<close>, \<^verbatim>\<open>chain, _ := NewChainInjector(slow)\<close>, and the same with an
  observer attached to \<open>slow\<close>.
\<close>

definition example_slow :: "int SlowInjector" where
  "example_slow = projr (NewSlowInjector 5)"

definition example_chain :: "int ChainInjector" where
  "example_chain = projr (NewChainInjector [SlowInjector_Injector (Some example_slow)])"

text \<open>
  The same chain with an observer attached to its member, three injectors of different
  kinds with their own observers, and RandomInjectors over them: as
  \<^verbatim>\<open>NewRandomInjector\<close> makes it, after \<^verbatim>\<open>SetRandSeed(5)\<close>, and one with no member.
\<close>

definition example_chain_observed :: "int ChainInjector" where
  "example_chain_observed =
     projr (NewChainInjector
       [SlowInjector_Injector
          (Some \<lparr>duration = 5, reporter_slow = Some 3, sleep = Some time_Sleep\<rparr>)])"

definition example_members :: "int Injector list" where
  "example_members =
     [RejectInjector_Injector (Some \<lparr>reporter_reject = Some 1\<rparr>),
      ErrorInjector_Injector http_StatusText
        (Some \<lparr>statusCode = 404, statusText = ''Not Found'', reporter_error = Some 2\<rparr>),
      SlowInjector_Injector
        (Some \<lparr>duration = 5, reporter_slow = Some 3, sleep = Some time_Sleep\<rparr>)]"

definition example_random_new :: "(error + int RandomInjector) \<times> int world" where
  "example_random_new =
     NewRandomInjector counter_NewSource counter_Intn 1 example_members example_world"

definition example_random :: "int RandomInjector" where
  "example_random = projr (fst example_random_new)"

definition example_random_reseeded :: "(panic_value + int RandomInjector) \<times> int world" where
  "example_random_reseeded =
     RandomInjector_SetRandSeed counter_NewSource counter_Intn (Some example_random) 5
       (snd example_random_new)"

definition example_random_empty :: "int RandomInjector" where
  "example_random_empty =
     projr (fst (NewRandomInjector counter_NewSource counter_Intn 1 [] example_world))"

section \<open>Properties\<close>

subsection \<open>The loops of the constructors and of the chain's handler\<close>

lemma NewChainInjector_loop_middlewares:
  "middlewares_chain (NewChainInjector_loop c is) = middlewares_chain c @ map Handler is"
  by (induction "is" arbitrary: c) simp_all

lemma NewChainInjector_loop_reporter:
  "reporter_chain (NewChainInjector_loop c is) = reporter_chain c"
  by (induction "is" arbitrary: c) simp_all

lemma NewRandomInjector_loop_middlewares:
  "middlewares_random (NewRandomInjector_loop c is) = middlewares_random c @ map Handler is"
  by (induction "is" arbitrary: c) simp_all

lemma NewRandomInjector_loop_rand:
  "rand (NewRandomInjector_loop c is) = rand c \<and>
   randF (NewRandomInjector_loop c is) = randF c \<and>
   reporter_random (NewRandomInjector_loop c is) = reporter_random c"
  by (induction "is" arbitrary: c) simp_all

text \<open>
  The reverse loop over the first \<open>k\<close> middlewares nests them with position 0 outermost.
\<close>

lemma ChainInjector_Handler_loop_take:
  "k \<le> length ms \<Longrightarrow>
     ChainInjector_Handler_loop ms (int k - 1) next = foldr (\<lambda>m h. m h) (take k ms) next"
proof (induction k arbitrary: "next")
  case 0
  then show ?case by (simp add: ChainInjector_Handler_loop.simps)
next
  case (Suc k)
  have "ChainInjector_Handler_loop ms (int (Suc k) - 1) next
          = ChainInjector_Handler_loop ms (int k - 1) ((ms ! k) next)"
    by (subst ChainInjector_Handler_loop.simps) simp
  also have "\<dots> = foldr (\<lambda>m h. m h) (take k ms) ((ms ! k) next)"
    using Suc by simp
  also have "\<dots> = foldr (\<lambda>m h. m h) (take (Suc k) ms) next"
    using Suc.prems by (simp add: take_Suc_conv_app_nth)
  finally show ?case .
qed

lemma ChainInjector_Handler_loop_foldr:
  "ChainInjector_Handler_loop ms (int (length ms) - 1) next = foldr (\<lambda>m h. m h) ms next"
  using ChainInjector_Handler_loop_take [of "length ms" ms "next"] by simp

text \<open>
  One invocation of the chain's handler, the captured variable holding \<open>next\<close>: the
  middlewares nested around \<open>next\<close> serve the tagged request, and the nest is what the
  invocation leaves in the captured variable.
\<close>

lemma ChainInjector_Handler_func_Some:
  "ChainInjector_Handler_func (Some c) next r w =
     (foldr (\<lambda>m h. m h) (middlewares_chain c) next
        (updateRequestContextValue r ContextValueChainInjector) w,
      foldr (\<lambda>m h. m h) (middlewares_chain c) next)"
  by (simp add: ChainInjector_Handler_func_def ChainInjector_Handler_loop_foldr Let_def)

lemma ChainInjector_Handler_func_reporter:
  "ChainInjector_Handler_func (Some (c\<lparr>reporter_chain := p\<rparr>)) =
     ChainInjector_Handler_func (Some c)"
  by (intro ext) (simp add: ChainInjector_Handler_func_def)

lemma ChainInjector_Handler_invocations_cong:
  "ChainInjector_Handler_func i = ChainInjector_Handler_func j \<Longrightarrow>
     ChainInjector_Handler_invocations i next rs w = ChainInjector_Handler_invocations j next rs w"
  by (induction rs arbitrary: "next" w) (simp_all add: split_beta)

lemma ChainInjector_Handler_invocations_reporter:
  "ChainInjector_Handler_invocations (Some (c\<lparr>reporter_chain := p\<rparr>)) =
     ChainInjector_Handler_invocations (Some c)"
  by (intro ext ChainInjector_Handler_invocations_cong ChainInjector_Handler_func_reporter)

text \<open>
  After as many invocations as there are requests, the captured variable holds the
  downstream handler wrapped in the nest of the members that many times.
\<close>

lemma ChainInjector_Handler_invocations_next:
  "snd (snd (ChainInjector_Handler_invocations (Some c) next rs w)) =
     ((\<lambda>h. foldr (\<lambda>m h. m h) (middlewares_chain c) h) ^^ length rs) next"
  by (induction rs arbitrary: "next" w)
     (simp_all add: ChainInjector_Handler_func_Some split_beta funpow_swap1)

subsection \<open>The generator and the handler of the RandomInjector\<close>

lemma rand_Intn_fst: "fst (rand_Intn Intn a n w) = fst (Intn (rands w a) n)"
  by (simp add: rand_Intn_def split_beta)

lemma rand_Intn_snd:
  "snd (rand_Intn Intn a n w) = w\<lparr>rands := (rands w)(a := snd (Intn (rands w a) n))\<rparr>"
  by (simp add: rand_Intn_def split_beta)

lemma RandomInjector_Handler_Some:
  "RandomInjector_Handler (Some ri) next r w =
     (if middlewares_random ri = [] then next r w
      else if 0 \<le> fst (randF ri (int (length (middlewares_random ri))) w) \<and>
              fst (randF ri (int (length (middlewares_random ri))) w)
                < int (length (middlewares_random ri))
           then (middlewares_random ri
                   ! nat (fst (randF ri (int (length (middlewares_random ri))) w))) next
                  (updateRequestContextValue r ContextValueRandomInjector)
                  (snd (randF ri (int (length (middlewares_random ri))) w))
           else (Panicked IndexOutOfRange,
                 snd (randF ri (int (length (middlewares_random ri))) w)))"
  by (simp add: RandomInjector_Handler_def Let_def split_beta)

lemma RandomInjector_Handler_reporter:
  "RandomInjector_Handler (Some (ri\<lparr>reporter_random := p\<rparr>)) =
     RandomInjector_Handler (Some ri)"
  by (intro ext) (simp add: RandomInjector_Handler_Some)

text \<open>
  When no member's handler touches the generator of the RandomInjector, an invocation
  advances that generator by exactly one draw.
\<close>

lemma RandomInjector_Handler_rands:
  assumes rf: "randF ri = rand_Intn Intn (rand ri)"
    and ne: "middlewares_random ri \<noteq> []"
    and frame: "\<forall>m\<in>set (middlewares_random ri). \<forall>r w.
                  rands (snd (m next r w)) (rand ri) = rands w (rand ri)"
  shows "rands (snd (RandomInjector_Handler (Some ri) next r w)) (rand ri) =
           snd (Intn (rands w (rand ri)) (int (length (middlewares_random ri))))"
proof -
  define k where "k = fst (randF ri (int (length (middlewares_random ri))) w)"
  define w1 where "w1 = snd (randF ri (int (length (middlewares_random ri))) w)"
  have drawn: "rands w1 (rand ri) =
                 snd (Intn (rands w (rand ri)) (int (length (middlewares_random ri))))"
    by (simp add: w1_def rf rand_Intn_snd)
  show ?thesis
  proof (cases "0 \<le> k \<and> k < int (length (middlewares_random ri))")
    case True
    then have "nat k < length (middlewares_random ri)" by linarith
    then have mem: "middlewares_random ri ! nat k \<in> set (middlewares_random ri)"
      by (rule nth_mem)
    have "RandomInjector_Handler (Some ri) next r w =
            (middlewares_random ri ! nat k) next
              (updateRequestContextValue r ContextValueRandomInjector) w1"
      using True ne unfolding k_def w1_def by (simp add: RandomInjector_Handler_Some)
    with frame mem drawn show ?thesis by simp
  next
    case False
    then have "RandomInjector_Handler (Some ri) next r w = (Panicked IndexOutOfRange, w1)"
      using ne unfolding k_def w1_def by (auto simp add: RandomInjector_Handler_Some)
    with drawn show ?thesis by simp
  qed
qed

lemma RandomInjector_selections_draws:
  assumes rf: "randF ri = rand_Intn Intn (rand ri)"
    and ne: "middlewares_random ri \<noteq> []"
    and frame: "\<forall>m\<in>set (middlewares_random ri). \<forall>r w.
                  rands (snd (m next r w)) (rand ri) = rands w (rand ri)"
  shows "RandomInjector_selections ri next rs w =
           Intn_draws Intn (rands w (rand ri)) (int (length (middlewares_random ri))) (length rs)"
proof (induction rs arbitrary: w)
  case Nil
  show ?case by simp
next
  case (Cons r rs)
  show ?case
    by (simp add: Cons.IH RandomInjector_Handler_rands [OF rf ne frame])
       (simp add: rf rand_Intn_fst)
qed

lemma NewRandomInjector_seeded:
  assumes "NewRandomInjector NewSource Intn seed is w0 = (Inr ri, w)"
  shows "randF ri = rand_Intn Intn (rand ri) \<and> rands w (rand ri) = NewSource seed \<and>
         middlewares_random ri = map Handler is"
  using assms
  by (auto simp add: NewRandomInjector_def rand_New_def Let_def
      NewRandomInjector_loop_middlewares NewRandomInjector_loop_rand)

lemma RandomInjector_SetRandSeed_seeded:
  assumes "RandomInjector_SetRandSeed NewSource Intn (Some ri0) s w1 = (Inr ri, w)"
  shows "randF ri = rand_Intn Intn (rand ri) \<and> rands w (rand ri) = NewSource s \<and>
         middlewares_random ri = middlewares_random ri0"
  using assms
  by (auto simp add: RandomInjector_SetRandSeed_def rand_New_def Let_def)

subsection \<open>The concrete values\<close>

lemma http_StatusText_404: "http_StatusText 404 = ''Not Found''"
  by (simp add: http_StatusText_def http_StatusText_table_def)

lemma http_StatusText_600: "http_StatusText 600 = []"
  by (simp add: http_StatusText_def http_StatusText_table_def)

lemma counter_Intn_contract:
  "0 < n \<Longrightarrow> 0 \<le> fst (counter_Intn g n) \<and> fst (counter_Intn g n) < n"
  by (simp add: counter_Intn_def)

lemma example_slow_eq:
  "example_slow = \<lparr>duration = 5, reporter_slow = None, sleep = Some time_Sleep\<rparr>"
  by (simp add: example_slow_def NewSlowInjector_def)

lemma example_chain_middlewares:
  "middlewares_chain example_chain = [SlowInjector_Handler (Some example_slow)]"
  by (simp add: example_chain_def NewChainInjector_def SlowInjector_Injector_def)

lemma example_chain_observed_middlewares:
  "middlewares_chain example_chain_observed =
     [SlowInjector_Handler
        (Some \<lparr>duration = 5, reporter_slow = Some 3, sleep = Some time_Sleep\<rparr>)]"
  by (simp add: example_chain_observed_def NewChainInjector_def SlowInjector_Injector_def)

lemma example_members_Handler:
  "map Handler example_members =
     [RejectInjector_Handler (Some \<lparr>reporter_reject = Some 1\<rparr>),
      ErrorInjector_Handler http_StatusText
        (Some \<lparr>statusCode = 404, statusText = ''Not Found'', reporter_error = Some 2\<rparr>),
      SlowInjector_Handler
        (Some \<lparr>duration = 5, reporter_slow = Some 3, sleep = Some time_Sleep\<rparr>)]"
  by (simp add: example_members_def RejectInjector_Injector_def ErrorInjector_Injector_def
      SlowInjector_Injector_def)

text \<open>None of the three members touches a generator.\<close>

lemma example_members_frame:
  "\<forall>m\<in>set (map Handler example_members). \<forall>r w.
     rands (snd (m appHandler r w)) a = rands w a"
  by (simp add: example_members_Handler RejectInjector_Handler_def ErrorInjector_Handler_def
      SlowInjector_Handler_def reportWithMessage_def http_Error_def time_Sleep_def
      appHandler_def http_StatusText_404)

lemma example_random_new_eq:
  "example_random_new =
     (Inr \<lparr>middlewares_random = map Handler example_members, reporter_random = None,
           rand = 0, randF = rand_Intn counter_Intn 0\<rparr>,
      \<lparr>events = [], rands = (\<lambda>a. 0)(0 := 1), nrands = 1\<rparr>)"
  by (simp add: example_random_new_def NewRandomInjector_def rand_New_def example_world_def
      example_members_def counter_NewSource_def)

lemma example_random_eq:
  "example_random =
     \<lparr>middlewares_random = map Handler example_members, reporter_random = None,
      rand = 0, randF = rand_Intn counter_Intn 0\<rparr>"
  by (simp add: example_random_def example_random_new_eq)

lemma example_random_reseeded_eq:
  "example_random_reseeded =
     (Inr \<lparr>middlewares_random = map Handler example_members, reporter_random = None,
           rand = 1, randF = rand_Intn counter_Intn 1\<rparr>,
      \<lparr>events = [], rands = (\<lambda>a. 0)(0 := 1, 1 := 5), nrands = 2\<rparr>)"
  by (simp add: example_random_reseeded_def RandomInjector_SetRandSeed_def rand_New_def
      example_random_eq example_random_new_eq counter_NewSource_def)

lemma example_random_empty_eq:
  "example_random_empty =
     \<lparr>middlewares_random = [], reporter_random = None,
      rand = 0, randF = rand_Intn counter_Intn 0\<rparr>"
  by (simp add: example_random_empty_def NewRandomInjector_def rand_New_def example_world_def)

subsection \<open>ChainInjector: repeated invocations\<close>

text \<open>
  C1: a handler returned by \<^verbatim>\<open>ChainInjector.Handler(d)\<close> is to behave, on every invocation,
  as the members nested around \<open>d\<close>, each member running at most once. The code does so
  on the first invocation only (\<open>ChainInjector_Handler_func_Some\<close>); each invocation
  wraps the handler once more (\<open>ChainInjector_Handler_invocations_next\<close>). With the chain of the
  one SlowInjector of \<^verbatim>\<open>NewSlowInjector(5)\<close> around an application handler, two invocations
  of the same returned handler give this trace: the first invocation sleeps once and
  reaches the application handler, the second sleeps twice (and tags the request twice)
  before it reaches it, because the first invocation left the wrapped handler in the
  captured variable \<^verbatim>\<open>next\<close> and the second wrapped it again.
\<close>

theorem ChainInjector_Handler_second_invocation_repeats_member:
  "events (fst (snd (ChainInjector_Handler_invocations (Some example_chain) appHandler
         [example_request, example_request] example_world))) =
     [Slept 5,
      Served \<lparr>target = ''/'', ctx = [ContextValueChainInjector, ContextValueSlowInjector]\<rparr>,
      Slept 5,
      Slept 5,
      Served \<lparr>target = ''/'',
        ctx = [ContextValueChainInjector, ContextValueSlowInjector, ContextValueSlowInjector]\<rparr>]"
  by (simp add: ChainInjector_Handler_func_Some example_chain_middlewares example_slow_eq
      SlowInjector_Handler_def reportWithMessage_def time_Sleep_def appHandler_def
      updateRequestContextValue_def example_request_def example_world_def)

subsection \<open>RandomInjector: one member for each invocation\<close>

text \<open>
  C2: for a RandomInjector whose \<open>randF\<close> is the \<open>Intn\<close> of its generator, as both
  \<^verbatim>\<open>NewRandomInjector\<close> and \<^verbatim>\<open>SetRandSeed\<close> set it, and an \<open>Intn\<close> that keeps the contract of
  math/rand (a number in \<open>[0, n)\<close> for a positive \<open>n\<close>): with at least one member, an
  invocation of \<^verbatim>\<open>Handler(d)\<close> draws one number from the generator, the number is an index
  of the members, and the result of the invocation is the result of that member's handler
  around \<open>d\<close> on the tagged request, nothing else; with no member it is the result of
  \<open>d\<close> on the request.
\<close>

theorem RandomInjector_Handler_delegates_to_drawn_member:
  assumes rf: "randF ri = rand_Intn Intn (rand ri)"
    and contract: "\<And>g n. 0 < n \<Longrightarrow> 0 \<le> fst (Intn g n) \<and> fst (Intn g n) < n"
  shows "(middlewares_random ri \<noteq> [] \<longrightarrow>
            0 \<le> fst (randF ri (int (length (middlewares_random ri))) w) \<and>
            fst (randF ri (int (length (middlewares_random ri))) w)
              < int (length (middlewares_random ri)) \<and>
            snd (randF ri (int (length (middlewares_random ri))) w) =
              w\<lparr>rands := (rands w)(rand ri :=
                   snd (Intn (rands w (rand ri)) (int (length (middlewares_random ri)))))\<rparr> \<and>
            RandomInjector_Handler (Some ri) d r w =
              (middlewares_random ri
                 ! nat (fst (randF ri (int (length (middlewares_random ri))) w))) d
                (updateRequestContextValue r ContextValueRandomInjector)
                (snd (randF ri (int (length (middlewares_random ri))) w))) \<and>
         (middlewares_random ri = [] \<longrightarrow> RandomInjector_Handler (Some ri) d r w = d r w)"
proof (cases "middlewares_random ri = []")
  case True
  then show ?thesis by (simp add: RandomInjector_Handler_Some)
next
  case False
  then have pos: "0 < int (length (middlewares_random ri))" by simp
  have range: "0 \<le> fst (randF ri (int (length (middlewares_random ri))) w) \<and>
               fst (randF ri (int (length (middlewares_random ri))) w)
                 < int (length (middlewares_random ri))"
    using contract [OF pos] by (simp add: rf rand_Intn_fst)
  show ?thesis
    using False range by (simp add: RandomInjector_Handler_Some) (simp add: rf rand_Intn_snd)
qed

text \<open>
  The RandomInjector of \<^verbatim>\<open>NewRandomInjector\<close> over a RejectInjector, an ErrorInjector for
  404 and a SlowInjector draws 1 and answers as the ErrorInjector alone; the one with no
  member passes the request through.
\<close>

theorem RandomInjector_Handler_delegates_to_drawn_member_witness:
  "middlewares_random example_random \<noteq> [] \<and>
   fst (randF example_random 3 (snd example_random_new)) = 1 \<and>
   events (snd (RandomInjector_Handler (Some example_random) appHandler example_request
     (snd example_random_new))) =
       [Report 2 ''Error Injector'' StateStarted, HttpError ''Not Found'' 404] \<and>
   middlewares_random example_random_empty = [] \<and>
   RandomInjector_Handler (Some example_random_empty) appHandler example_request example_world =
     appHandler example_request example_world"
proof -
  have rf: "randF example_random = rand_Intn counter_Intn (rand example_random)"
    by (simp add: example_random_eq)
  have rfe: "randF example_random_empty = rand_Intn counter_Intn (rand example_random_empty)"
    by (simp add: example_random_empty_eq)
  note full = RandomInjector_Handler_delegates_to_drawn_member
                [OF rf counter_Intn_contract, of "snd example_random_new" appHandler example_request]
  note empty = RandomInjector_Handler_delegates_to_drawn_member
                [OF rfe counter_Intn_contract, of example_world appHandler example_request]
  show ?thesis
    using full empty
    by (simp add: example_random_eq example_random_empty_eq example_random_new_eq
        example_members_Handler rand_Intn_def counter_Intn_def
        ErrorInjector_Handler_def reportWithMessage_def http_Error_def http_StatusText_404
        ErrorInjector_Name_def)
qed

subsection \<open>ErrorInjector: construction\<close>

text \<open>
  C3: for a code with a non-empty text in the table, \<^verbatim>\<open>NewErrorInjector\<close> gives the injector
  with that code and the table's text for it; for a code with the empty text it gives the
  error \<^verbatim>\<open>ErrInvalidHTTPCode\<close> and no injector. The table is any table.
\<close>

theorem NewErrorInjector_succeeds_iff_canonical_text:
  "(StatusText code \<noteq> [] \<longrightarrow>
      NewErrorInjector StatusText code =
        Inr \<lparr>statusCode = code, statusText = StatusText code, reporter_error = None\<rparr>) \<and>
   (StatusText code = [] \<longrightarrow> NewErrorInjector StatusText code = Inl ErrInvalidHTTPCode)"
  by (simp add: NewErrorInjector_def Let_def)

text \<open>With the table of net/http: 404 is a code with a text, 600 is not.\<close>

theorem NewErrorInjector_succeeds_iff_canonical_text_witness:
  "http_StatusText 404 \<noteq> [] \<and>
   NewErrorInjector http_StatusText 404 =
     Inr \<lparr>statusCode = 404, statusText = ''Not Found'', reporter_error = None\<rparr> \<and>
   http_StatusText 600 = [] \<and>
   NewErrorInjector http_StatusText 600 = Inl ErrInvalidHTTPCode"
  using NewErrorInjector_succeeds_iff_canonical_text [of http_StatusText 404]
        NewErrorInjector_succeeds_iff_canonical_text [of http_StatusText 600]
  by (simp add: http_StatusText_404 http_StatusText_600)

subsection \<open>RejectInjector\<close>

text \<open>
  C4, as stated, asks for exactly one Started event on every invocation of a handler of a
  RejectInjector. On a nil receiver the handler skips the report: the invocation reports
  nothing, so the number of Started events is not one.
\<close>

theorem RejectInjector_Handler_nil_reports_nothing:
  "\<not> count_reports StateStarted
       (events (snd (RejectInjector_Handler None appHandler example_request example_world))) = 1"
  by (simp add: RejectInjector_Handler_def count_reports_def example_world_def)

text \<open>
  C4, amended: every invocation of the handler returned by \<^verbatim>\<open>RejectInjector.Handler(d)\<close>,
  for every receiver, panics with \<^verbatim>\<open>http.ErrAbortHandler\<close>; its result does not depend on
  \<open>d\<close>, which is never invoked; nothing is written to the response and no Finished event
  is reported. The only event it may add is one Started event, under the name of the
  injector: it adds it when the receiver is not nil and has an observer attached, and adds
  nothing when the receiver is nil or has no observer.
\<close>

theorem RejectInjector_Handler_aborts:
  "RejectInjector_Handler i d r w =
     (Panicked ErrAbortHandler,
      w\<lparr>events := events w @
          (case i of
             None \<Rightarrow> []
           | Some j \<Rightarrow>
               (case reporter_reject j of
                  None \<Rightarrow> []
                | Some p \<Rightarrow> [Report p ''Reject Injector'' StateStarted]))\<rparr>)"
  by (simp add: RejectInjector_Handler_def reportWithMessage_def RejectInjector_Name_def
      split: option.splits)

subsection \<open>ErrorInjector: the handler\<close>

text \<open>
  C5: for an ErrorInjector that \<^verbatim>\<open>NewErrorInjector(c)\<close> has made, with any observer or none
  attached since, every invocation of \<^verbatim>\<open>Handler(d)\<close> reports Started to the observer, calls
  \<^verbatim>\<open>http.Error\<close> with the table's text of \<open>c\<close> and the code \<open>c\<close>, and returns; the result
  does not depend on \<open>d\<close>. For an ErrorInjector whose code has the empty text when the
  handler runs, the invocation reports Started and is then the invocation of \<open>d\<close> on the
  request.
\<close>

theorem ErrorInjector_Handler_writes_status:
  "(NewErrorInjector StatusText c = Inr e \<longrightarrow>
      ErrorInjector_Handler StatusText (Some (e\<lparr>reporter_error := p\<rparr>)) d r w =
        (Returned,
         http_Error (StatusText c) c
           (reportWithMessage p ErrorInjector_Name StateStarted w))) \<and>
   (StatusText (statusCode e) = [] \<longrightarrow>
      ErrorInjector_Handler StatusText (Some e) d r w =
        d r (reportWithMessage (reporter_error e) ErrorInjector_Name StateStarted w))"
  by (auto simp add: NewErrorInjector_def ErrorInjector_Handler_def Let_def split: if_splits)

text \<open>
  With the table of net/http: the injector for 404, observer 7 attached, answers 404 with
  the text "Not Found" and the application handler is not reached; an injector holding the
  code 600 reports and lets the application handler answer.
\<close>

theorem ErrorInjector_Handler_writes_status_witness:
  "NewErrorInjector http_StatusText 404 =
     Inr \<lparr>statusCode = 404, statusText = ''Not Found'', reporter_error = None\<rparr> \<and>
   fst (ErrorInjector_Handler http_StatusText
      (Some \<lparr>statusCode = 404, statusText = ''Not Found'', reporter_error = Some 7\<rparr>)
      appHandler example_request example_world) = Returned \<and>
   events (snd (ErrorInjector_Handler http_StatusText
      (Some \<lparr>statusCode = 404, statusText = ''Not Found'', reporter_error = Some 7\<rparr>)
      appHandler example_request example_world)) =
     [Report 7 ''Error Injector'' StateStarted, HttpError ''Not Found'' 404] \<and>
   http_StatusText (statusCode \<lparr>statusCode = 600, statusText = ''x'', reporter_error = Some 7\<rparr>)
     = [] \<and>
   events (snd (ErrorInjector_Handler http_StatusText
      (Some \<lparr>statusCode = 600, statusText = ''x'', reporter_error = Some 7\<rparr>)
      appHandler example_request example_world)) =
     [Report 7 ''Error Injector'' StateStarted, Served example_request]"
  using ErrorInjector_Handler_writes_status [of http_StatusText 404
          "\<lparr>statusCode = 404, statusText = ''Not Found'', reporter_error = None\<rparr>"
          "Some 7" appHandler example_request example_world]
        ErrorInjector_Handler_writes_status [of http_StatusText 404
          "\<lparr>statusCode = 600, statusText = ''x'', reporter_error = Some 7\<rparr>"
          "Some 7" appHandler example_request example_world]
  by (simp add: http_StatusText_404 http_StatusText_600 NewErrorInjector_def
      reportWithMessage_def http_Error_def ErrorInjector_Name_def appHandler_def
      example_world_def)

subsection \<open>SlowInjector\<close>

text \<open>
  C6: for a SlowInjector with the delay function \<open>f\<close>, every invocation of \<^verbatim>\<open>Handler(d)\<close>
  reports Started, calls \<open>f\<close> on the configured duration, reports Finished, and is then
  the invocation of \<open>d\<close>, once, on the request tagged \<^verbatim>\<open>ContextValueSlowInjector\<close>. For a
  SlowInjector with no delay function it is the invocation of \<open>d\<close>, once, on the request
  tagged \<^verbatim>\<open>ContextValueSkipped\<close>, in the world as it was: nothing is reported.
\<close>

theorem SlowInjector_Handler_delays_then_continues:
  "(sleep s = Some f \<longrightarrow>
      SlowInjector_Handler (Some s) d r w =
        d (updateRequestContextValue r ContextValueSlowInjector)
          (reportWithMessage (reporter_slow s) SlowInjector_Name StateFinished
            (f (duration s)
              (reportWithMessage (reporter_slow s) SlowInjector_Name StateStarted w)))) \<and>
   (sleep s = None \<longrightarrow>
      SlowInjector_Handler (Some s) d r w =
        d (updateRequestContextValue r ContextValueSkipped) w)"
  by (simp add: SlowInjector_Handler_def Let_def)

text \<open>
  A SlowInjector of 5 with \<^verbatim>\<open>time.Sleep\<close> and observer 3, and the same with no delay
  function, around the application handler.
\<close>

theorem SlowInjector_Handler_delays_then_continues_witness:
  "sleep \<lparr>duration = 5, reporter_slow = Some 3, sleep = Some time_Sleep\<rparr> = Some time_Sleep \<and>
   SlowInjector_Handler
      (Some \<lparr>duration = 5, reporter_slow = Some 3, sleep = Some time_Sleep\<rparr>)
      appHandler example_request example_world =
     (Returned,
      example_world\<lparr>events :=
        [Report 3 ''Slow Injector'' StateStarted, Slept 5,
         Report 3 ''Slow Injector'' StateFinished,
         Served \<lparr>target = ''/'', ctx = [ContextValueSlowInjector]\<rparr>]\<rparr>) \<and>
   sleep \<lparr>duration = 5, reporter_slow = Some 3, sleep = None\<rparr> = None \<and>
   SlowInjector_Handler
      (Some \<lparr>duration = 5, reporter_slow = Some 3, sleep = None\<rparr>)
      appHandler example_request example_world =
     (Returned,
      example_world\<lparr>events := [Served \<lparr>target = ''/'', ctx = [ContextValueSkipped]\<rparr>]\<rparr>)"
  using SlowInjector_Handler_delays_then_continues
          [of "\<lparr>duration = 5, reporter_slow = Some 3, sleep = Some time_Sleep\<rparr>"
              time_Sleep appHandler example_request example_world]
        SlowInjector_Handler_delays_then_continues
          [of "\<lparr>duration = 5, reporter_slow = Some 3, sleep = None\<rparr>"
              time_Sleep appHandler example_request example_world]
  by (simp add: reportWithMessage_def time_Sleep_def SlowInjector_Name_def appHandler_def
      updateRequestContextValue_def example_request_def example_world_def)

subsection \<open>RandomInjector: the seed decides the selections\<close>

text \<open>
  C7: take the RandomInjector that \<^verbatim>\<open>NewRandomInjector\<close> makes over a list of at least one
  member, and serve any list of requests with its handler, one after the other. The
  generator is in a field that only the RandomInjector reaches, so no member's handler
  changes it; that is the condition on the members here. Then the indices selected are the
  first draws, as many as there are requests, of a generator made from the default seed; and
  after \<^verbatim>\<open>SetRandSeed(s)\<close> they are the first draws of a generator made from \<open>s\<close>. The sequence
  is a function of the seed, the number of members and the number of invocations: not of
  the world the run starts in, of the requests or of the downstream handler. Two runs with
  the same seed over the same members select the same indices.
\<close>

theorem RandomInjector_selections_determined_by_seed:
  assumes new: "NewRandomInjector NewSource Intn defaultRandSeed is w0 = (Inr ri0, w1)"
    and ne: "is \<noteq> []"
  shows "((\<forall>m\<in>set (map Handler is). \<forall>r w.
             rands (snd (m next r w)) (rand ri0) = rands w (rand ri0)) \<longrightarrow>
          RandomInjector_selections ri0 next rs w1 =
            Intn_draws Intn (NewSource defaultRandSeed) (int (length is)) (length rs)) \<and>
         (RandomInjector_SetRandSeed NewSource Intn (Some ri0) s w1 = (Inr ri, w2) \<longrightarrow>
          (\<forall>m\<in>set (map Handler is). \<forall>r w.
             rands (snd (m next r w)) (rand ri) = rands w (rand ri)) \<longrightarrow>
          RandomInjector_selections ri next rs w2 =
            Intn_draws Intn (NewSource s) (int (length is)) (length rs))"
proof (intro conjI impI)
  note s0 = NewRandomInjector_seeded [OF new]
  assume frame: "\<forall>m\<in>set (map Handler is). \<forall>r w.
             rands (snd (m next r w)) (rand ri0) = rands w (rand ri0)"
  have "RandomInjector_selections ri0 next rs w1 =
          Intn_draws Intn (rands w1 (rand ri0)) (int (length (middlewares_random ri0))) (length rs)"
    using s0 ne frame by (intro RandomInjector_selections_draws) simp_all
  then show "RandomInjector_selections ri0 next rs w1 =
            Intn_draws Intn (NewSource defaultRandSeed) (int (length is)) (length rs)"
    using s0 by simp
next
  note s0 = NewRandomInjector_seeded [OF new]
  assume set: "RandomInjector_SetRandSeed NewSource Intn (Some ri0) s w1 = (Inr ri, w2)"
    and frame: "\<forall>m\<in>set (map Handler is). \<forall>r w.
             rands (snd (m next r w)) (rand ri) = rands w (rand ri)"
  note s1 = RandomInjector_SetRandSeed_seeded [OF set]
  have "RandomInjector_selections ri next rs w2 =
          Intn_draws Intn (rands w2 (rand ri)) (int (length (middlewares_random ri))) (length rs)"
    using s0 s1 ne frame by (intro RandomInjector_selections_draws) simp_all
  then show "RandomInjector_selections ri next rs w2 =
            Intn_draws Intn (NewSource s) (int (length is)) (length rs)"
    using s0 s1 by simp
qed

text \<open>
  Over the three members, with the counting generator: four requests select 1, 2, 0, 1
  from the default seed 1, and 2, 0, 1, 2 after \<^verbatim>\<open>SetRandSeed(5)\<close>.
\<close>

theorem RandomInjector_selections_determined_by_seed_witness:
  "RandomInjector_selections example_random appHandler
      [example_request, example_request, example_request, example_request]
      (snd example_random_new) = [1, 2, 0, 1] \<and>
   RandomInjector_selections (projr (fst example_random_reseeded)) appHandler
      [example_request, example_request, example_request, example_request]
      (snd example_random_reseeded) = [2, 0, 1, 2]"
proof -
  have new: "NewRandomInjector counter_NewSource counter_Intn 1 example_members example_world =
               (Inr example_random, snd example_random_new)"
    by (simp add: example_random_eq example_random_new_eq example_random_new_def [symmetric])
  have ne: "example_members \<noteq> []"
    by (simp add: example_members_def)
  have reseed: "RandomInjector_SetRandSeed counter_NewSource counter_Intn (Some example_random) 5
                  (snd example_random_new) =
                (Inr (projr (fst example_random_reseeded)), snd example_random_reseeded)"
    by (simp add: example_random_reseeded_eq example_random_reseeded_def [symmetric])
  note det = RandomInjector_selections_determined_by_seed
               [OF new ne, of appHandler
                  "[example_request, example_request, example_request, example_request]"
                  5 "projr (fst example_random_reseeded)" "snd example_random_reseeded"]
  show ?thesis
    using det reseed example_members_frame
    by (simp add: example_members_def counter_NewSource_def counter_Intn_def)
qed

subsection \<open>Nil receivers\<close>

text \<open>
  C9: on a nil receiver, an invocation of the handler of a ChainInjector, a RandomInjector
  or an ErrorInjector is the invocation of \<open>d\<close> on the request, once, and the chain's
  handler leaves \<open>d\<close> in its captured variable; the handler of a SlowInjector, on a nil
  receiver or with a nil delay function, is the invocation of \<open>d\<close>, once, on the request
  tagged \<^verbatim>\<open>ContextValueSkipped\<close>; the handler of a RejectInjector on a nil receiver panics
  with \<^verbatim>\<open>http.ErrAbortHandler\<close>, leaves the world as it was and does not invoke \<open>d\<close>.
\<close>

theorem nil_receiver_Handler_passes_through:
  "ChainInjector_Handler_func None d r w = (d r w, d) \<and>
   RandomInjector_Handler None d r w = d r w \<and>
   ErrorInjector_Handler StatusText None d r w = d r w \<and>
   SlowInjector_Handler None d r w = d (updateRequestContextValue r ContextValueSkipped) w \<and>
   SlowInjector_Handler (Some (s\<lparr>sleep := None\<rparr>)) d r w =
     d (updateRequestContextValue r ContextValueSkipped) w \<and>
   RejectInjector_Handler None d r w = (Panicked ErrAbortHandler, w)"
  by (simp add: ChainInjector_Handler_func_def RandomInjector_Handler_def
      ErrorInjector_Handler_def SlowInjector_Handler_def RejectInjector_Handler_def)

subsection \<open>SetReporter on the combinators\<close>

text \<open>
  C10: \<^verbatim>\<open>SetReporter(p)\<close> on a ChainInjector or a RandomInjector changes the field
  \<open>reporter\<close> and no other field, and the handler of the injector with the new reporter is
  the handler of the injector with the old one, on every invocation: the combinator never
  reads the field. What an invocation of the chain's handler does is what the nest of its
  members' handlers does, so every report in it is made by a member, through the observer
  that member holds, or by the downstream handler.
\<close>

theorem SetReporter_leaves_Handler_unchanged:
  "ChainInjector_SetReporter (Some c) p = Inr (c\<lparr>reporter_chain := p\<rparr>) \<and>
   middlewares_chain (c\<lparr>reporter_chain := p\<rparr>) = middlewares_chain c \<and>
   ChainInjector_Handler_func (Some (c\<lparr>reporter_chain := p\<rparr>)) =
     ChainInjector_Handler_func (Some c) \<and>
   ChainInjector_Handler_invocations (Some (c\<lparr>reporter_chain := p\<rparr>)) =
     ChainInjector_Handler_invocations (Some c) \<and>
   fst (ChainInjector_Handler_func (Some (c\<lparr>reporter_chain := p\<rparr>)) d r w) =
     foldr (\<lambda>m h. m h) (middlewares_chain c) d
       (updateRequestContextValue r ContextValueChainInjector) w \<and>
   RandomInjector_SetReporter (Some ri) p = Inr (ri\<lparr>reporter_random := p\<rparr>) \<and>
   middlewares_random (ri\<lparr>reporter_random := p\<rparr>) = middlewares_random ri \<and>
   rand (ri\<lparr>reporter_random := p\<rparr>) = rand ri \<and>
   randF (ri\<lparr>reporter_random := p\<rparr>) = randF ri \<and>
   RandomInjector_Handler (Some (ri\<lparr>reporter_random := p\<rparr>)) =
     RandomInjector_Handler (Some ri)"
  by (simp add: ChainInjector_SetReporter_def RandomInjector_SetReporter_def
      ChainInjector_Handler_func_reporter ChainInjector_Handler_invocations_reporter
      RandomInjector_Handler_reporter ChainInjector_Handler_func_Some)

text \<open>
  The chain over a SlowInjector with observer 3, after \<^verbatim>\<open>SetReporter\<close> attaches observer 9
  to the chain: the two reports of an invocation go to observer 3, none to observer 9.
\<close>

theorem SetReporter_leaves_Handler_unchanged_witness:
  "ChainInjector_SetReporter (Some example_chain_observed) (Some 9) =
     Inr (example_chain_observed\<lparr>reporter_chain := Some 9\<rparr>) \<and>
   events (snd (fst (ChainInjector_Handler_func
      (Some (example_chain_observed\<lparr>reporter_chain := Some 9\<rparr>))
      appHandler example_request example_world))) =
     [Report 3 ''Slow Injector'' StateStarted, Slept 5,
      Report 3 ''Slow Injector'' StateFinished,
      Served \<lparr>target = ''/'', ctx = [ContextValueChainInjector, ContextValueSlowInjector]\<rparr>]"
proof -
  note unchanged = SetReporter_leaves_Handler_unchanged
          [of example_chain_observed "Some 9" appHandler example_request example_world
              example_random]
  note set = unchanged [THEN conjunct1]
  note run = unchanged [THEN conjunct2, THEN conjunct2, THEN conjunct2, THEN conjunct2,
                        THEN conjunct1]
  show ?thesis
    unfolding run
    using set
    by (simp add: example_chain_observed_middlewares SlowInjector_Handler_def
        reportWithMessage_def time_Sleep_def SlowInjector_Name_def appHandler_def
        updateRequestContextValue_def example_request_def example_world_def)
qed

end
